theory Spec2Isabelle
  imports Main "HOL-Library.Sublist"
begin

section \<open>Strings and the text buffer\<close>

text \<open>
  The extension (\<^verbatim>\<open>src/extension.ts\<close>) works on JavaScript strings and on the
  lines of the active editor's document. A string is modelled as a \<^typ>\<open>string\<close>
  (a list of characters, each a code unit below 256), and the document as the list
  of its lines, none of which holds a line break. Line numbers count from 0.
\<close>

type_synonym buffer = "string list"

text \<open>The newline character, written \<^verbatim>\<open>\n\<close> in the source.\<close>

definition nl :: char where
  "nl = CHR 0x0A"

text \<open>
  The regular-expression class \<^verbatim>\<open>\s\<close> (also the characters that \<^verbatim>\<open>trim\<close>
  strips) on code units below 256: tab, line feed, vertical tab, form feed,
  carriage return, space and the no-break space.
\<close>

definition isSpace :: "char \<Rightarrow> bool" where
  "isSpace c = (c \<in> set [CHR 0x09, CHR 0x0A, CHR 0x0B, CHR 0x0C, CHR 0x0D, CHR 0x20, CHR 0xA0])"

text \<open>The class \<^verbatim>\<open>\w\<close>: ASCII letters, digits and the underscore.\<close>

definition isWord :: "char \<Rightarrow> bool" where
  "isWord c =
     (let n = (of_char c :: nat)
      in (48 \<le> n \<and> n \<le> 57) \<or> (65 \<le> n \<and> n \<le> 90) \<or> n = 95 \<or> (97 \<le> n \<and> n \<le> 122))"

text \<open>\<^verbatim>\<open>Array.prototype.join\<close>: the pieces with the separator between them.\<close>

fun join_str :: "string \<Rightarrow> string list \<Rightarrow> string" where
  "join_str sep [] = []"
| "join_str sep [x] = x"
| "join_str sep (x # y # ys) = x @ sep @ join_str sep (y # ys)"

text \<open>
  \<^verbatim>\<open>String.prototype.split\<close> at a one-character separator: the pieces between the
  separators, one more than there are separators (the empty string gives one empty
  piece).
\<close>

fun split_str :: "char \<Rightarrow> string \<Rightarrow> string list" where
  "split_str sep [] = [[]]"
| "split_str sep (c # cs) =
     (if c = sep then [] # split_str sep cs
      else (case split_str sep cs of
              [] \<Rightarrow> [[c]]
            | p # ps \<Rightarrow> (c # p) # ps))"

text \<open>\<^verbatim>\<open>String.prototype.trim\<close>: white space removed at both ends.\<close>

definition trim :: "string \<Rightarrow> string" where
  "trim s = rev (dropWhile isSpace (rev (dropWhile isSpace s)))"

text \<open>\<^verbatim>\<open>String.prototype.includes\<close>: the second string occurs somewhere in the first.\<close>

fun includes_str :: "string \<Rightarrow> string \<Rightarrow> bool" where
  "includes_str [] sub = (sub = [])"
| "includes_str (c # cs) sub = (prefix sub (c # cs) \<or> includes_str cs sub)"

text \<open>
  \<^verbatim>\<open>docstring.replace(/\n/g, `\n${indent}`)\<close>: every newline of the docstring is
  followed by the indentation.
\<close>

fun replaceNewlines :: "string \<Rightarrow> string \<Rightarrow> string" where
  "replaceNewlines [] indent = []"
| "replaceNewlines (c # cs) indent =
     (if c = nl then nl # indent else [c]) @ replaceNewlines cs indent"

text \<open>
  \<^verbatim>\<open>document.lineAt(lineNumber).text\<close>. The editor throws for a line number that
  is not a line of the document: that is the result \<open>None\<close>.
\<close>

definition lineAt :: "buffer \<Rightarrow> nat \<Rightarrow> string option" where
  "lineAt document lineNumber =
     (if lineNumber < length document then Some (document ! lineNumber) else None)"

text \<open>
  \<^verbatim>\<open>editBuilder.insert(new vscode.Position(line, character), txt)\<close> on a line of the
  document: the text goes between the first \<open>character\<close> characters of the line and
  the rest of it, and the result is cut into lines again at every newline (the only
  line break the source writes). It is used on a line that \<open>lineAt\<close> has read.
\<close>

definition insertText :: "buffer \<Rightarrow> nat \<Rightarrow> nat \<Rightarrow> string \<Rightarrow> buffer" where
  "insertText document line character txt =
     take line document
     @ split_str nl (take character (document ! line) @ txt @ drop character (document ! line))
     @ drop (Suc line) document"

section \<open>The template builder\<close>

text \<open>
  \<^verbatim>\<open>generateDocstring(language, name, params)\<close>, lines 6 to 15: a reST docstring
  for Python, a JSDoc block for JavaScript and TypeScript, and the empty string for
  every other language identifier.
\<close>

definition generateDocstring :: "string \<Rightarrow> string \<Rightarrow> string list \<Rightarrow> string" where
  "generateDocstring language name params =
     (if language = ''python'' then
        (let paramLines = join_str [nl] (map (\<lambda>p. '':param '' @ p @ '': DESCRIPTION'') params)
         in ''\"\"\"'' @ name @ '' description.'' @ [nl, nl] @ paramLines
            @ (if length params \<noteq> 0 then [nl] else [])
            @ '':return: DESCRIPTION'' @ [nl] @ ''\"\"\"'')
      else if language = ''javascript'' \<or> language = ''typescript'' then
        (let paramLines = join_str [nl] (map (\<lambda>p. '' * @param {any} '' @ p @ '' DESCRIPTION'') params)
         in ''/**'' @ [nl] @ '' * '' @ name @ '' description.'' @ [nl] @ paramLines
            @ (if length params \<noteq> 0 then [nl] else [])
            @ '' * @returns {any} DESCRIPTION'' @ [nl] @ '' */'')
      else [])"

section \<open>The declaration matcher\<close>

text \<open>
  The function pattern \<^verbatim>\<open>/^\s*KEYWORD\s+(\w+)\s*\(([^)]*)\)/\<close>, with the keyword
  \<^verbatim>\<open>def\<close> or \<^verbatim>\<open>function\<close>. The result is the pair of the two capture
  groups, or \<open>None\<close> when the line does not match. Each greedy repetition is
  followed by a character outside its class (white space by the keyword or an
  identifier, the identifier by white space or the parenthesis, the parameter text
  by the closing parenthesis), so the longest run is the only one a backtracking
  matcher can succeed with; the lemmas \<open>funcRegex_iff\<close> and \<open>classRegex_iff\<close> below
  state the patterns as decompositions of the line.
\<close>

definition matchFuncRegex :: "string \<Rightarrow> string \<Rightarrow> (string \<times> string) option" where
  "matchFuncRegex keyword line =
     (let s1 = dropWhile isSpace line in
      if \<not> prefix keyword s1 then None
      else
        let s2 = drop (length keyword) s1 in
        if takeWhile isSpace s2 = [] then None
        else
          let s3 = dropWhile isSpace s2;
              name = takeWhile isWord s3
          in
          if name = [] then None
          else
            (case dropWhile isSpace (dropWhile isWord s3) of
               [] \<Rightarrow> None
             | c # s5 \<Rightarrow>
                 if c \<noteq> CHR ''('' then None
                 else
                   (case dropWhile (\<lambda>c. c \<noteq> CHR '')'') s5 of
                      [] \<Rightarrow> None
                    | _ # _ \<Rightarrow> Some (name, takeWhile (\<lambda>c. c \<noteq> CHR '')'') s5))))"

text \<open>The class pattern \<^verbatim>\<open>/^\s*class\s+(\w+)/\<close>; the result is its capture group.\<close>

definition matchClassRegex :: "string \<Rightarrow> string option" where
  "matchClassRegex line =
     (let s1 = dropWhile isSpace line in
      if \<not> prefix ''class'' s1 then None
      else
        let s2 = drop (length ''class'') s1 in
        if takeWhile isSpace s2 = [] then None
        else
          let name = takeWhile isWord (dropWhile isSpace s2) in
          if name = [] then None else Some name)"

text \<open>The two patterns \<^verbatim>\<open>parseFunctionOrClass\<close> picks from the language, lines 23 to 29.\<close>

definition funcRegex :: "string \<Rightarrow> string \<Rightarrow> (string \<times> string) option" where
  "funcRegex language =
     (if language = ''python'' then matchFuncRegex ''def'' else matchFuncRegex ''function'')"

definition classRegex :: "string \<Rightarrow> string \<Rightarrow> string option" where
  "classRegex language =
     (if language = ''python'' then matchClassRegex else matchClassRegex)"

datatype decl_type = Function | Class

record parsed =
  p_type :: decl_type
  p_name :: string
  p_params :: "string list"

text \<open>
  \<^verbatim>\<open>parseFunctionOrClass(line, language)\<close>, lines 20 to 43. The function pattern
  is tried first; \<open>None\<close> is the source's \<^verbatim>\<open>null\<close>.
\<close>

definition parseFunctionOrClass :: "string \<Rightarrow> string \<Rightarrow> parsed option" where
  "parseFunctionOrClass line language =
     (case funcRegex language line of
        Some (m1, m2) \<Rightarrow>
          Some \<lparr>p_type = Function, p_name = m1,
                p_params = filter (\<lambda>p. length p > 0) (map trim (split_str (CHR '','') m2))\<rparr>
      | None \<Rightarrow>
          (case classRegex language line of
             Some m1 \<Rightarrow> Some \<lparr>p_type = Class, p_name = m1, p_params = []\<rparr>
           | None \<Rightarrow> None))"

section \<open>The insertion applier\<close>

text \<open>
  \<^verbatim>\<open>insertDocstringAtLine(editor, lineNumber, docstring)\<close>, lines 48 to 59. The
  indentation is the capture of \<^verbatim>\<open>/^(\s*)/\<close> on the target line, which always
  matches. The result is the document after the edit, or \<open>None\<close> when
  \<^verbatim>\<open>lineAt\<close> throws.
\<close>

definition insertDocstringAtLine :: "buffer \<Rightarrow> nat \<Rightarrow> string \<Rightarrow> buffer option" where
  "insertDocstringAtLine document lineNumber docstring =
     (case lineAt document lineNumber of
        None \<Rightarrow> None
      | Some lineText \<Rightarrow>
          (let indent = takeWhile isSpace lineText
           in Some (insertText document lineNumber 0
                      (indent @ replaceNewlines docstring indent @ [nl]))))"

section \<open>The orchestration loop\<close>

text \<open>
  The test of line 86 on one line: it holds a triple quote or the opening of a
  block comment.
\<close>

definition hasMarker :: "string \<Rightarrow> bool" where
  "hasMarker checkLine = (includes_str checkLine ''\"\"\"'' \<or> includes_str checkLine ''/**'')"

text \<open>
  The inner loop of lines 82 to 91, for \<open>i\<close> from 0 to 2: the lines
  \<open>lineNumber - i\<close> that exist are tested. It runs only after line \<open>lineNumber\<close>
  has been read, so every line it reads is a line of the document.
\<close>

definition hasDocstring :: "buffer \<Rightarrow> nat \<Rightarrow> bool" where
  "hasDocstring document lineNumber =
     list_ex (\<lambda>i. i \<le> lineNumber \<and> hasMarker (document ! (lineNumber - i))) [0, 1, 2]"

text \<open>One round of the loop of lines 76 to 96, on the document as it is then.\<close>

definition loopBody :: "string \<Rightarrow> buffer \<Rightarrow> nat \<Rightarrow> buffer option" where
  "loopBody language document lineNumber =
     (case lineAt document lineNumber of
        None \<Rightarrow> None
      | Some lineText \<Rightarrow>
          (case parseFunctionOrClass lineText language of
             None \<Rightarrow> Some document
           | Some p \<Rightarrow>
               if hasDocstring document lineNumber then Some document
               else insertDocstringAtLine document lineNumber
                      (generateDocstring language (p_name p) (p_params p))))"

text \<open>
  The loop itself. \<open>totalLines\<close> is read once, before the loop (line 73), while
  every round reads the document as the rounds before it left it.
\<close>

function scanLines :: "string \<Rightarrow> nat \<Rightarrow> nat \<Rightarrow> buffer \<Rightarrow> buffer option" where
  "scanLines language totalLines lineNumber document =
     (if lineNumber < totalLines then
        (case loopBody language document lineNumber of
           None \<Rightarrow> None
         | Some document' \<Rightarrow> scanLines language totalLines (Suc lineNumber) document')
      else Some document)"
  by pat_completeness auto
termination
  by (relation "measure (\<lambda>(language, totalLines, lineNumber, document). totalLines - lineNumber)") auto

text \<open>
  \<^verbatim>\<open>generateDocstringsForFile()\<close>, lines 64 to 99, for an active editor showing
  \<open>document\<close> in the language \<open>language\<close>: the document it leaves.
\<close>

definition generateDocstringsForFile :: "string \<Rightarrow> buffer \<Rightarrow> buffer option" where
  "generateDocstringsForFile language document = scanLines language (length document) 0 document"

section \<open>Predicates of the specification\<close>

text \<open>
  The specification says that, with no parameters, the description line of the
  Python template is "followed directly by the return line": in the list of the
  template's lines, the line \<open>a\<close> stands immediately before the line \<open>b\<close>.
\<close>

fun followedDirectly :: "string \<Rightarrow> string \<Rightarrow> string list \<Rightarrow> bool" where
  "followedDirectly a b (x # y # zs) = ((x = a \<and> y = b) \<or> followedDirectly a b (y # zs))"
| "followedDirectly a b zs = False"

text \<open>
  The specification's account of the existing-documentation check, in its words: the
  marker of the buffer's own family (a triple quote for Python, the opening of a block
  comment otherwise) is looked for on the two lines before the declaration, and not on
  the declaration's own line. The check of the source is \<open>hasDocstring\<close> above.
\<close>

definition familyMarker :: "string \<Rightarrow> string" where
  "familyMarker language = (if language = ''python'' then ''\"\"\"'' else ''/**'')"

definition specHasDocstring :: "string \<Rightarrow> buffer \<Rightarrow> nat \<Rightarrow> bool" where
  "specHasDocstring language document lineNumber =
     list_ex (\<lambda>i. i \<le> lineNumber \<and> includes_str (document ! (lineNumber - i)) (familyMarker language)) [1, 2]"

section \<open>Lemmas on splitting and re-indenting\<close>

declare scanLines.simps [simp del]

lemma split_str_not_Nil: "split_str sep s \<noteq> []"
  by (induction s) (auto split: list.splits)

lemma split_str_no_sep: "sep \<notin> set s \<Longrightarrow> split_str sep s = [s]"
  by (induction s) auto

lemma split_str_append_sep:
  "split_str sep (xs @ sep # ys) = split_str sep xs @ split_str sep ys"
  by (induction xs) (auto split: list.splits simp: split_str_not_Nil)

lemma length_split_str: "length (split_str sep s) = count_list s sep + 1"
  by (induction s) (auto split: list.splits simp: split_str_not_Nil)

lemma split_str_pre_replaceNewlines:
  "nl \<notin> set pre \<Longrightarrow> nl \<notin> set indent \<Longrightarrow>
   split_str nl (pre @ replaceNewlines d indent) =
     (case split_str nl d of [] \<Rightarrow> [] | p # ps \<Rightarrow> (pre @ p) # map ((@) indent) ps)"
proof (induction d arbitrary: pre)
  case Nil
  then show ?case by (simp add: split_str_no_sep)
next
  case (Cons c cs)
  show ?case
  proof (cases "c = nl")
    case True
    have "split_str nl (pre @ replaceNewlines (c # cs) indent)
        = split_str nl (pre @ nl # (indent @ replaceNewlines cs indent))"
      using True by simp
    also have "\<dots> = split_str nl pre @ split_str nl (indent @ replaceNewlines cs indent)"
      by (rule split_str_append_sep)
    also have "\<dots> = [pre] @ (case split_str nl cs of [] \<Rightarrow> [] | p # ps \<Rightarrow> (indent @ p) # map ((@) indent) ps)"
      using Cons.IH [of indent] Cons.prems by (simp add: split_str_no_sep)
    finally show ?thesis
      using True by (simp split: list.splits)
  next
    case False
    have "split_str nl (pre @ replaceNewlines (c # cs) indent)
        = split_str nl ((pre @ [c]) @ replaceNewlines cs indent)"
      using False by simp
    also have "\<dots> = (case split_str nl cs of [] \<Rightarrow> [] | p # ps \<Rightarrow> ((pre @ [c]) @ p) # map ((@) indent) ps)"
      using Cons.prems False by (intro Cons.IH) auto
    finally show ?thesis
      using False by (simp split: list.splits add: split_str_not_Nil)
  qed
qed

lemma split_str_reindent:
  assumes "nl \<notin> set indent"
  shows "split_str nl (indent @ replaceNewlines d indent) = map ((@) indent) (split_str nl d)"
  using split_str_pre_replaceNewlines [OF assms assms, of d]
  by (cases "split_str nl d") (simp_all add: split_str_not_Nil)

lemma split_str_four_lines:
  assumes "nl \<notin> set a" and "nl \<notin> set c" and "nl \<notin> set d"
  shows "split_str nl (a @ [nl] @ [nl] @ c @ [nl] @ d) = [a, [], c, d]"
proof -
  have "split_str nl (a @ nl # ([] @ nl # (c @ nl # d)))
      = split_str nl a @ split_str nl [] @ split_str nl c @ split_str nl d"
    by (simp only: split_str_append_sep)
  with assms show ?thesis
    by (simp add: split_str_no_sep)
qed

lemma split_str_pieces: "p \<in> set (split_str sep s) \<Longrightarrow> sep \<notin> set p"
proof (induction s arbitrary: p)
  case Nil
  then show ?case by simp
next
  case (Cons c cs)
  then show ?case
    by (cases "split_str sep cs") (auto split: if_splits)
qed

lemma count_replaceNewlines:
  "nl \<notin> set indent \<Longrightarrow> count_list (replaceNewlines d indent) nl = count_list d nl"
  by (induction d) (auto simp: count_list_0_iff)

lemma insertDocstringAtLine_lines:
  assumes "lineNumber < length document" and "nl \<notin> set (document ! lineNumber)"
  shows "insertDocstringAtLine document lineNumber docstring =
           Some (take lineNumber document
                 @ map ((@) (takeWhile isSpace (document ! lineNumber))) (split_str nl docstring)
                 @ drop lineNumber document)"
proof -
  let ?line = "document ! lineNumber"
  let ?indent = "takeWhile isSpace ?line"
  have ind: "nl \<notin> set ?indent"
    using assms(2) by (auto dest: set_takeWhileD)
  have "split_str nl ((?indent @ replaceNewlines docstring ?indent @ [nl]) @ ?line)
      = split_str nl ((?indent @ replaceNewlines docstring ?indent) @ nl # ?line)"
    by simp
  also have "\<dots> = split_str nl (?indent @ replaceNewlines docstring ?indent) @ split_str nl ?line"
    by (rule split_str_append_sep)
  also have "\<dots> = map ((@) ?indent) (split_str nl docstring) @ [?line]"
    using ind assms(2) by (simp add: split_str_reindent split_str_no_sep)
  finally have blk: "split_str nl ((?indent @ replaceNewlines docstring ?indent @ [nl]) @ ?line)
      = map ((@) ?indent) (split_str nl docstring) @ [?line]" .
  have "?line # drop (Suc lineNumber) document = drop lineNumber document"
    using assms(1) by (rule Cons_nth_drop_Suc)
  with blk show ?thesis
    using assms(1) by (simp add: insertDocstringAtLine_def lineAt_def insertText_def)
qed

section \<open>The matcher and the regular expressions\<close>












section \<open>Lemmas on the loop\<close>

lemma insertDocstringAtLine_Some:
  "lineNumber < length document \<Longrightarrow> \<exists>document'. insertDocstringAtLine document lineNumber docstring = Some document'"
  by (simp add: insertDocstringAtLine_def lineAt_def Let_def)

lemma insertDocstringAtLine_longer:
  assumes "insertDocstringAtLine document lineNumber docstring = Some document'"
  shows "length document < length document'"
proof -
  from assms have n: "lineNumber < length document"
    by (auto simp: insertDocstringAtLine_def lineAt_def split: if_splits)
  let ?indent = "takeWhile isSpace (document ! lineNumber)"
  let ?txt = "?indent @ replaceNewlines docstring ?indent @ [nl]"
  have "2 \<le> length (split_str nl (?txt @ document ! lineNumber))"
    by (simp add: length_split_str)
  moreover have "document' = take lineNumber document
      @ split_str nl (?txt @ document ! lineNumber) @ drop (Suc lineNumber) document"
    using assms n by (auto simp: insertDocstringAtLine_def lineAt_def insertText_def Let_def)
  ultimately show ?thesis
    using n by simp
qed

lemma hasDocstring_window:
  "hasDocstring document i = (\<exists>j. j \<le> i \<and> i \<le> j + 2 \<and> hasMarker (document ! j))"
proof
  assume "hasDocstring document i"
  then consider "hasMarker (document ! i)"
    | "1 \<le> i" "hasMarker (document ! (i - 1))"
    | "2 \<le> i" "hasMarker (document ! (i - 2))"
    by (auto simp: hasDocstring_def)
  then show "\<exists>j. j \<le> i \<and> i \<le> j + 2 \<and> hasMarker (document ! j)"
  proof cases
    case 1
    then show ?thesis by (intro exI [of _ i]) simp
  next
    case 2
    then show ?thesis by (intro exI [of _ "i - 1"]) simp
  next
    case 3
    then show ?thesis by (intro exI [of _ "i - 2"]) simp
  qed
next
  assume "\<exists>j. j \<le> i \<and> i \<le> j + 2 \<and> hasMarker (document ! j)"
  then obtain j where j: "j \<le> i" "i \<le> j + 2" "hasMarker (document ! j)"
    by blast
  then have "j = i \<or> (1 \<le> i \<and> j = i - 1) \<or> (2 \<le> i \<and> j = i - 2)"
    by arith
  with j(3) show "hasDocstring document i"
    by (auto simp: hasDocstring_def)
qed

lemma includes_str_iff: "includes_str s sub = (\<exists>a b. s = a @ sub @ b)"
proof (induction s)
  case Nil
  then show ?case by auto
next
  case (Cons c cs)
  show ?case
  proof
    assume "includes_str (c # cs) sub"
    then consider "prefix sub (c # cs)" | "includes_str cs sub" by auto
    then show "\<exists>a b. c # cs = a @ sub @ b"
    proof cases
      case 1
      then obtain b where "c # cs = sub @ b" by (auto simp: prefix_def)
      then have "c # cs = [] @ sub @ b" by simp
      then show ?thesis by blast
    next
      case 2
      with Cons.IH obtain a b where "cs = a @ sub @ b" by blast
      then have "c # cs = (c # a) @ sub @ b" by simp
      then show ?thesis by blast
    qed
  next
    assume "\<exists>a b. c # cs = a @ sub @ b"
    then obtain a b where ab: "c # cs = a @ sub @ b" by blast
    show "includes_str (c # cs) sub"
    proof (cases a)
      case Nil
      with ab have "prefix sub (c # cs)" by (simp add: prefix_def)
      then show ?thesis by simp
    next
      case (Cons a0 as)
      with ab have "cs = as @ sub @ b" by simp
      with Cons.IH have "includes_str cs sub" by blast
      then show ?thesis by simp
    qed
  qed
qed

lemma parse_None_iff:
  "parseFunctionOrClass line language = None
     \<longleftrightarrow> funcRegex language line = None \<and> classRegex language line = None"
  by (auto simp: parseFunctionOrClass_def split: option.splits)

lemma loopBody_no_match:
  "lineAt document lineNumber = Some line \<Longrightarrow> parseFunctionOrClass line language = None
   \<Longrightarrow> loopBody language document lineNumber = Some document"
  by (simp add: loopBody_def)

lemma loopBody_match:
  "lineAt document lineNumber = Some line \<Longrightarrow> parseFunctionOrClass line language = Some p
   \<Longrightarrow> loopBody language document lineNumber =
        (if hasDocstring document lineNumber then Some document
         else insertDocstringAtLine document lineNumber
                (generateDocstring language (p_name p) (p_params p)))"
  by (simp add: loopBody_def)

lemma loopBody_grows:
  assumes "lineNumber < length document"
  shows "\<exists>document'. loopBody language document lineNumber = Some document'
           \<and> length document \<le> length document'"
proof -
  have l: "lineAt document lineNumber = Some (document ! lineNumber)"
    using assms by (simp add: lineAt_def)
  show ?thesis
  proof (cases "parseFunctionOrClass (document ! lineNumber) language")
    case None
    with l show ?thesis by (simp add: loopBody_no_match)
  next
    case (Some p)
    show ?thesis
    proof (cases "hasDocstring document lineNumber")
      case True
      with l Some show ?thesis by (simp add: loopBody_match)
    next
      case False
      obtain d where d: "insertDocstringAtLine document lineNumber
          (generateDocstring language (p_name p) (p_params p)) = Some d"
        using insertDocstringAtLine_Some [OF assms] by blast
      then have "length document \<le> length d"
        using insertDocstringAtLine_longer [OF d] by simp
      with l Some False d show ?thesis by (simp add: loopBody_match)
    qed
  qed
qed

lemma scanLines_total:
  "totalLines \<le> length document \<Longrightarrow>
   \<exists>document'. scanLines language totalLines lineNumber document = Some document'"
proof (induction language totalLines lineNumber document rule: scanLines.induct)
  case (1 language totalLines lineNumber document)
  show ?case
  proof (cases "lineNumber < totalLines")
    case True
    with "1.prems" have "lineNumber < length document" by simp
    from loopBody_grows [OF this, of language]
    obtain d where d: "loopBody language document lineNumber = Some d"
      and len: "length document \<le> length d" by blast
    from "1.IH" [OF True d] "1.prems" len
    obtain r where "scanLines language totalLines (Suc lineNumber) d = Some r" by auto
    with True d show ?thesis by (subst scanLines.simps) simp
  next
    case False
    then show ?thesis by (subst scanLines.simps) simp
  qed
qed

lemma generateDocstringsForFile_total:
  "\<exists>document'. generateDocstringsForFile language document = Some document'"
  by (simp add: generateDocstringsForFile_def scanLines_total)

lemma scanLines_no_match:
  assumes "\<forall>l \<in> set document. parseFunctionOrClass l language = None"
    and "totalLines \<le> length document"
  shows "scanLines language totalLines lineNumber document = Some document"
  using assms
proof (induction language totalLines lineNumber document rule: scanLines.induct)
  case (1 language totalLines lineNumber document)
  show ?case
  proof (cases "lineNumber < totalLines")
    case True
    with "1.prems" have n: "lineNumber < length document" by simp
    then have "parseFunctionOrClass (document ! lineNumber) language = None"
      using "1.prems"(1) by simp
    with n have d: "loopBody language document lineNumber = Some document"
      by (simp add: loopBody_no_match lineAt_def)
    from "1.IH" [OF True d "1.prems"] True d show ?thesis
      by (subst scanLines.simps) simp
  next
    case False
    then show ?thesis by (subst scanLines.simps) simp
  qed
qed

lemma hasMarker_iff:
  "hasMarker checkLine
     \<longleftrightarrow> (\<exists>a b. checkLine = a @ ''\"\"\"'' @ b) \<or> (\<exists>a b. checkLine = a @ ''/**'' @ b)"
  by (simp only: hasMarker_def includes_str_iff)

lemma generateDocstring_other_language:
  "language \<noteq> ''python'' \<Longrightarrow> language \<noteq> ''javascript'' \<Longrightarrow> language \<noteq> ''typescript''
   \<Longrightarrow> generateDocstring language name params = []"
  by (simp add: generateDocstring_def)

lemma loopBody_inserts:
  assumes "lineAt document lineNumber = Some line"
    and "parseFunctionOrClass line language = Some p"
    and "\<not> hasDocstring document lineNumber"
  shows "loopBody language document lineNumber
           = insertDocstringAtLine document lineNumber
               (generateDocstring language (p_name p) (p_params p))"
    and "\<exists>document'. loopBody language document lineNumber = Some document'
           \<and> length document < length document'"
proof -
  show 1: "loopBody language document lineNumber
           = insertDocstringAtLine document lineNumber
               (generateDocstring language (p_name p) (p_params p))"
    using assms by (simp add: loopBody_match)
  from assms(1) have "lineNumber < length document"
    by (simp add: lineAt_def split: if_splits)
  from insertDocstringAtLine_Some [OF this]
  obtain d where d: "insertDocstringAtLine document lineNumber
      (generateDocstring language (p_name p) (p_params p)) = Some d"
    by blast
  with insertDocstringAtLine_longer [OF d] 1
  show "\<exists>document'. loopBody language document lineNumber = Some document'
           \<and> length document < length document'"
    by simp
qed

section \<open>The claims\<close>

text \<open>
  Claim C5. For Python, the line \<^verbatim>\<open>def greet(name, age):\<close> is matched as a function
  declaration named \<open>greet\<close> with the parameters \<open>name\<close> and \<open>age\<close>, and the
  template rendered for it is exactly the docstring with the description line, a
  blank line, one \<^verbatim>\<open>:param\<close> line for each parameter and the \<^verbatim>\<open>:return:\<close> line,
  between triple quotes, its lines separated by single newline characters.
\<close>

theorem greet_example:
  "parseFunctionOrClass ''def greet(name, age):'' ''python''
     = Some \<lparr>p_type = Function, p_name = ''greet'', p_params = [''name'', ''age'']\<rparr>
   \<and> generateDocstring ''python'' ''greet'' [''name'', ''age'']
     = ''\"\"\"greet description.\<newline>\<newline>:param name: DESCRIPTION\<newline>:param age: DESCRIPTION\<newline>:return: DESCRIPTION\<newline>\"\"\"''"
  by code_simp

text \<open>
  Claim C6. For the brace-delimited family, that is for the language identifiers
  \<^verbatim>\<open>javascript\<close> and \<^verbatim>\<open>typescript\<close> alike, the line \<^verbatim>\<open>function add(a, b) {\<close> is
  matched as a function declaration named \<open>add\<close> with the parameters \<open>a\<close> and
  \<open>b\<close>, and the template rendered for it is exactly the JSDoc block with the
  description line, one \<^verbatim>\<open>@param\<close> line for each parameter and the \<^verbatim>\<open>@returns\<close>
  line, its lines separated by single newline characters.
\<close>

theorem add_example:
  "parseFunctionOrClass ''function add(a, b) {'' ''javascript''
     = Some \<lparr>p_type = Function, p_name = ''add'', p_params = [''a'', ''b'']\<rparr>
   \<and> generateDocstring ''javascript'' ''add'' [''a'', ''b'']
     = ''/**\<newline> * add description.\<newline> * @param {any} a DESCRIPTION\<newline> * @param {any} b DESCRIPTION\<newline> * @returns {any} DESCRIPTION\<newline> */''
   \<and> parseFunctionOrClass ''function add(a, b) {'' ''typescript''
     = Some \<lparr>p_type = Function, p_name = ''add'', p_params = [''a'', ''b'']\<rparr>
   \<and> generateDocstring ''typescript'' ''add'' [''a'', ''b'']
     = ''/**\<newline> * add description.\<newline> * @param {any} a DESCRIPTION\<newline> * @param {any} b DESCRIPTION\<newline> * @returns {any} DESCRIPTION\<newline> */''"
  by code_simp

text \<open>
  Claim C3, as stated: for Python with no parameters, the description line is followed
  directly by the return line, with no blank line between them. It fails for
  \<^verbatim>\<open>def run():\<close>: the template's lines are the description line, an empty line, the
  return line and the closing quotes, so the return line does not stand directly after
  the description line.
\<close>

theorem return_only_template_has_blank_line:
  "\<not> followedDirectly ''\"\"\"run description.'' '':return: DESCRIPTION''
        (split_str nl (generateDocstring ''python'' ''run'' []))
   \<and> split_str nl (generateDocstring ''python'' ''run'' [])
       = [''\"\"\"run description.'', '''', '':return: DESCRIPTION'', ''\"\"\"'']"
  by code_simp

text \<open>
  Claim C3, amended: for Python with no parameters, the template is the description
  line, one blank line, the return line and the closing triple quote, whatever the
  name; there is no \<^verbatim>\<open>:param\<close> line and no second blank line. The two newlines after
  the description are part of the template for every parameter list; only the newline
  that ends the parameter lines depends on there being parameters.
\<close>

theorem python_template_no_params:
  "generateDocstring ''python'' name []
     = ''\"\"\"'' @ name @ '' description.'' @ [nl] @ [nl] @ '':return: DESCRIPTION'' @ [nl] @ ''\"\"\"''
   \<and> (nl \<notin> set name \<longrightarrow>
        split_str nl (generateDocstring ''python'' name [])
          = [''\"\"\"'' @ name @ '' description.'', [], '':return: DESCRIPTION'', ''\"\"\"''])"
proof (intro conjI impI)
  show g: "generateDocstring ''python'' name []
     = ''\"\"\"'' @ name @ '' description.'' @ [nl] @ [nl] @ '':return: DESCRIPTION'' @ [nl] @ ''\"\"\"''"
    by (simp add: generateDocstring_def)
  assume n: "nl \<notin> set name"
  have "split_str nl ((''\"\"\"'' @ name @ '' description.'') @ [nl] @ [nl] @ '':return: DESCRIPTION'' @ [nl] @ ''\"\"\"'')
      = [''\"\"\"'' @ name @ '' description.'', [], '':return: DESCRIPTION'', ''\"\"\"'']"
    using n by (intro split_str_four_lines) (simp_all add: nl_def)
  then show "split_str nl (generateDocstring ''python'' name [])
          = [''\"\"\"'' @ name @ '' description.'', [], '':return: DESCRIPTION'', ''\"\"\"'']"
    by (simp add: g)
qed

text \<open>The amended claim C3 at the name \<open>run\<close>.\<close>

theorem python_template_no_params_witness:
  "nl \<notin> set ''run''
   \<and> generateDocstring ''python'' ''run'' []
     = ''\"\"\"run description.\<newline>\<newline>:return: DESCRIPTION\<newline>\"\"\"''
   \<and> split_str nl (generateDocstring ''python'' ''run'' [])
          = [''\"\"\"run description.'', '''', '':return: DESCRIPTION'', ''\"\"\"'']"
proof -
  have h: "nl \<notin> set ''run''" by (simp add: nl_def)
  from python_template_no_params [of "''run''"] h show ?thesis
    by (simp add: nl_def)
qed

text \<open>
  Claim C7. For every document, every target line of it and every template, the
  insertion applier puts a block of lines in front of the target line, one for each
  line of the template, and each line of the block is the target line's leading white
  space followed by the template's line: every line of the inserted block begins with
  exactly the characters the target line is indented with. (A line of the document
  holds no line break.)
\<close>

theorem reindent_every_line:
  assumes "lineNumber < length document" and "nl \<notin> set (document ! lineNumber)"
  shows "\<exists>block.
           insertDocstringAtLine document lineNumber docstring
             = Some (take lineNumber document @ block @ drop lineNumber document)
           \<and> length block = length (split_str nl docstring)
           \<and> (\<forall>i < length block.
                 block ! i = takeWhile isSpace (document ! lineNumber) @ split_str nl docstring ! i)
           \<and> (\<forall>l \<in> set block. prefix (takeWhile isSpace (document ! lineNumber)) l)"
proof -
  let ?indent = "takeWhile isSpace (document ! lineNumber)"
  let ?block = "map ((@) ?indent) (split_str nl docstring)"
  have "insertDocstringAtLine document lineNumber docstring
          = Some (take lineNumber document @ ?block @ drop lineNumber document)"
    using assms by (rule insertDocstringAtLine_lines)
  moreover have "length ?block = length (split_str nl docstring)"
    by simp
  moreover have "\<forall>i < length ?block. ?block ! i = ?indent @ split_str nl docstring ! i"
    by simp
  moreover have "\<forall>l \<in> set ?block. prefix ?indent l"
    by auto
  ultimately show ?thesis
    by blast
qed

text \<open>
  Claim C7 above a declaration indented with four spaces, for a template of three
  lines.
\<close>

theorem reindent_every_line_witness:
  "(1::nat) < length [''x = 1'', ''    def f(a):'']
   \<and> nl \<notin> set ([''x = 1'', ''    def f(a):''] ! 1)
   \<and> takeWhile isSpace ([''x = 1'', ''    def f(a):''] ! 1) = ''    ''
   \<and> insertDocstringAtLine [''x = 1'', ''    def f(a):''] 1 ''/**\<newline> * f\<newline> */''
       = Some [''x = 1'', ''    /**'', ''     * f'', ''     */'', ''    def f(a):'']
   \<and> list_all (prefix ''    '') [''    /**'', ''     * f'', ''     */'']"
proof -
  let ?doc = "[''x = 1'', ''    def f(a):'']"
  let ?t = "''/**\<newline> * f\<newline> */''"
  have h1: "(1::nat) < length ?doc" by simp
  have h2: "nl \<notin> set (?doc ! 1)" by code_simp
  have h3: "takeWhile isSpace (?doc ! 1) = ''    ''" by code_simp
  have h4: "insertDocstringAtLine ?doc 1 ?t
       = Some [''x = 1'', ''    /**'', ''     * f'', ''     */'', ''    def f(a):'']"
    by code_simp
  from reindent_every_line [OF h1 h2, of ?t]
  obtain block where b:
    "insertDocstringAtLine ?doc 1 ?t = Some (take 1 ?doc @ block @ drop 1 ?doc)"
    and p: "\<forall>l \<in> set block. prefix (takeWhile isSpace (?doc ! 1)) l"
    by (elim exE conjE)
  from b h4 have "[''x = 1''] @ block @ [''    def f(a):'']
      = [''x = 1''] @ [''    /**'', ''     * f'', ''     */''] @ [''    def f(a):'']"
    by simp
  then have "block = [''    /**'', ''     * f'', ''     */'']"
    by (simp only: same_append_eq append_same_eq)
  with p h3 have h5: "list_all (prefix ''    '') [''    /**'', ''     * f'', ''     */'']"
    by (simp only: list_all_iff)
  show ?thesis
    by (intro conjI h1 h2 h3 h4 h5)
qed

text \<open>
  Claim C8. For every insertion, the text is inserted at column 0 of the target line,
  and it is the re-indented template with one newline after it. The lines before the
  target line stay as they are, the target line is unchanged and stands immediately
  after the inserted block, and it and every line after it is moved down by the number
  of newlines in the re-indented template plus one.
\<close>

theorem insertion_frame:
  fixes document :: buffer and docstring :: string
  assumes "lineNumber < length document" and "nl \<notin> set (document ! lineNumber)"
  defines "indent \<equiv> takeWhile isSpace (document ! lineNumber)"
  defines "k \<equiv> count_list (indent @ replaceNewlines docstring indent) nl + 1"
  shows "\<exists>document'.
           insertDocstringAtLine document lineNumber docstring = Some document'
           \<and> document' = insertText document lineNumber 0
                            (indent @ replaceNewlines docstring indent @ [nl])
           \<and> length document' = length document + k
           \<and> take lineNumber document' = take lineNumber document
           \<and> document' ! (lineNumber + k) = document ! lineNumber
           \<and> drop (lineNumber + k) document' = drop lineNumber document"
proof -
  let ?block = "map ((@) indent) (split_str nl docstring)"
  let ?d = "take lineNumber document @ ?block @ drop lineNumber document"
  have ind: "nl \<notin> set indent"
    using assms(2) by (auto simp: indent_def dest: set_takeWhileD)
  have k: "length ?block = k"
    using ind by (simp add: k_def length_split_str count_replaceNewlines count_list_0_iff)
  have tk: "length (take lineNumber document) = lineNumber"
    using assms(1) by simp
  have ins: "insertDocstringAtLine document lineNumber docstring = Some ?d"
    unfolding indent_def using assms(1,2) by (rule insertDocstringAtLine_lines)
  moreover have "?d = insertText document lineNumber 0
                        (indent @ replaceNewlines docstring indent @ [nl])"
    using ins assms(1) by (simp add: insertDocstringAtLine_def lineAt_def Let_def indent_def)
  moreover have "length ?d = length document + k"
    using k assms(1) by simp
  moreover have "take lineNumber ?d = take lineNumber document"
    using tk by simp
  moreover have "?d ! (lineNumber + k) = document ! lineNumber"
    using tk k assms(1) by (simp add: nth_append)
  moreover have "drop (lineNumber + k) ?d = drop lineNumber document"
    using tk k by simp
  ultimately show ?thesis
    by blast
qed

text \<open>Claim C8 for a two-line template inserted above the second of three lines.\<close>

theorem insertion_frame_witness:
  "(1::nat) < length [''x = 1'', ''  def f():'', ''    pass'']
   \<and> nl \<notin> set ([''x = 1'', ''  def f():'', ''    pass''] ! 1)
   \<and> count_list (''  '' @ replaceNewlines ''\"\"\"f.\<newline>\"\"\"'' ''  '') nl + 1 = 2
   \<and> insertDocstringAtLine [''x = 1'', ''  def f():'', ''    pass''] 1 ''\"\"\"f.\<newline>\"\"\"''
       = Some [''x = 1'', ''  \"\"\"f.'', ''  \"\"\"'', ''  def f():'', ''    pass'']
   \<and> [''x = 1'', ''  \"\"\"f.'', ''  \"\"\"'', ''  def f():'', ''    pass''] ! (1 + 2) = ''  def f():''"
proof -
  let ?doc = "[''x = 1'', ''  def f():'', ''    pass'']"
  let ?t = "''\"\"\"f.\<newline>\"\"\"''"
  have h1: "(1::nat) < length ?doc" by simp
  have h2: "nl \<notin> set (?doc ! 1)" by code_simp
  have h3: "count_list (''  '' @ replaceNewlines ?t ''  '') nl + 1 = 2"
    by code_simp
  have h4: "insertText ?doc 1 0
              (takeWhile isSpace (?doc ! 1) @ replaceNewlines ?t (takeWhile isSpace (?doc ! 1)) @ [nl])
            = [''x = 1'', ''  \"\"\"f.'', ''  \"\"\"'', ''  def f():'', ''    pass'']"
    by code_simp
  have h5: "[''x = 1'', ''  \"\"\"f.'', ''  \"\"\"'', ''  def f():'', ''    pass''] ! (1 + 2) = ''  def f():''"
    by code_simp
  from insertion_frame [OF h1 h2, of ?t]
  obtain d where d: "insertDocstringAtLine ?doc 1 ?t = Some d"
    and e: "d = insertText ?doc 1 0
              (takeWhile isSpace (?doc ! 1) @ replaceNewlines ?t (takeWhile isSpace (?doc ! 1)) @ [nl])"
    by (elim exE conjE)
  from d e h4 have h6: "insertDocstringAtLine ?doc 1 ?t
       = Some [''x = 1'', ''  \"\"\"f.'', ''  \"\"\"'', ''  def f():'', ''    pass'']"
    by (simp only:)
  show ?thesis
    by (intro conjI h1 h2 h3 h5 h6)
qed

text \<open>
  Claim C9. A line that matches neither the function pattern nor the class pattern of
  its language gives the matcher's result "no declaration here", and the round of the
  loop that reads it leaves the document as it is; a document none of whose lines
  matches is returned unchanged by the whole run.
\<close>

theorem no_match_no_insertion:
  "(funcRegex language line = None \<and> classRegex language line = None \<longrightarrow>
      parseFunctionOrClass line language = None
      \<and> (\<forall>document lineNumber. lineAt document lineNumber = Some line \<longrightarrow>
             loopBody language document lineNumber = Some document))
   \<and> ((\<forall>l \<in> set document. funcRegex language l = None \<and> classRegex language l = None) \<longrightarrow>
         generateDocstringsForFile language document = Some document)"
proof (intro conjI impI allI)
  assume "funcRegex language line = None \<and> classRegex language line = None"
  then show p: "parseFunctionOrClass line language = None"
    by (simp add: parse_None_iff)
  fix document lineNumber
  assume "lineAt document lineNumber = Some line"
  then show "loopBody language document lineNumber = Some document"
    using p by (rule loopBody_no_match)
next
  assume "\<forall>l \<in> set document. funcRegex language l = None \<and> classRegex language l = None"
  then have "\<forall>l \<in> set document. parseFunctionOrClass l language = None"
    by (simp add: parse_None_iff)
  then show "generateDocstringsForFile language document = Some document"
    unfolding generateDocstringsForFile_def by (rule scanLines_no_match) simp
qed

text \<open>Claim C9 on a Python document of two lines that are not declarations.\<close>

theorem no_match_no_insertion_witness:
  "funcRegex ''python'' ''x = define(1)'' = None
   \<and> classRegex ''python'' ''x = define(1)'' = None
   \<and> parseFunctionOrClass ''x = define(1)'' ''python'' = None
   \<and> loopBody ''python'' [''x = define(1)'', ''classes = [x]''] 0
       = Some [''x = define(1)'', ''classes = [x]'']
   \<and> generateDocstringsForFile ''python'' [''x = define(1)'', ''classes = [x]'']
       = Some [''x = define(1)'', ''classes = [x]'']"
proof -
  let ?doc = "[''x = define(1)'', ''classes = [x]'']"
  have f0: "funcRegex ''python'' ''x = define(1)'' = None" by code_simp
  have c0: "classRegex ''python'' ''x = define(1)'' = None" by code_simp
  have f1: "funcRegex ''python'' ''classes = [x]'' = None" by code_simp
  have c1: "classRegex ''python'' ''classes = [x]'' = None" by code_simp
  have l: "lineAt ?doc 0 = Some ''x = define(1)''" by code_simp
  have all: "\<forall>l \<in> set ?doc. funcRegex ''python'' l = None \<and> classRegex ''python'' l = None"
    using f0 c0 f1 c1 by (simp only: list.set ball_simps simp_thms)
  note t = no_match_no_insertion [of "''python''" "''x = define(1)''" ?doc]
  note t1 = t [THEN conjunct1, THEN mp, OF conjI [OF f0 c0]]
  have p: "parseFunctionOrClass ''x = define(1)'' ''python'' = None"
    by (rule t1 [THEN conjunct1])
  have b: "loopBody ''python'' ?doc 0 = Some ?doc"
    by (rule t1 [THEN conjunct2, THEN spec, THEN spec, THEN mp, OF l])
  have g: "generateDocstringsForFile ''python'' ?doc = Some ?doc"
    by (rule t [THEN conjunct2, THEN mp, OF all])
  show ?thesis
    by (intro conjI f0 c0 p b g)
qed



text \<open>
  Claim C1, as stated: for a matched declaration the check looks only at the two lines
  before it, for the marker of the buffer's family, and the insertion is skipped
  exactly when that marker is found there. It fails twice. A Python declaration with a
  triple quote on its own line, and no line before it, is skipped; and a Python
  declaration below a line that holds the opening of a block comment is skipped,
  though no triple quote stands on the two lines before it.
\<close>

theorem existing_doc_check_counterexample:
  "parseFunctionOrClass ''def f(): \"\"\"doc\"\"\"'' ''python''
     = Some \<lparr>p_type = Function, p_name = ''f'', p_params = []\<rparr>
   \<and> \<not> specHasDocstring ''python'' [''def f(): \"\"\"doc\"\"\"''] 0
   \<and> loopBody ''python'' [''def f(): \"\"\"doc\"\"\"''] 0 = Some [''def f(): \"\"\"doc\"\"\"'']
   \<and> parseFunctionOrClass ''def g():'' ''python''
     = Some \<lparr>p_type = Function, p_name = ''g'', p_params = []\<rparr>
   \<and> \<not> specHasDocstring ''python'' [''x = 1  # /** note'', ''def g():''] 1
   \<and> loopBody ''python'' [''x = 1  # /** note'', ''def g():''] 1
     = Some [''x = 1  # /** note'', ''def g():'']"
  by code_simp

text \<open>
  Claim C1, amended: for every declaration matched at line \<open>i\<close>, the check looks at
  line \<open>i\<close> itself and at the two lines before it (those that exist), for a triple
  quote or the opening of a block comment, whatever the language; the insertion is
  skipped, and the document left as it is, if and only if one of the two markers is
  found in that window, and otherwise the rendered template is inserted.
\<close>

theorem existing_doc_check_window:
  assumes "lineAt document i = Some line"
    and "parseFunctionOrClass line language = Some p"
  shows "(hasDocstring document i
            \<longleftrightarrow> (\<exists>j. j \<le> i \<and> i \<le> j + 2
                  \<and> (includes_str (document ! j) ''\"\"\"'' \<or> includes_str (document ! j) ''/**'')))
       \<and> (loopBody language document i = Some document \<longleftrightarrow> hasDocstring document i)
       \<and> (loopBody language document i
            = (if hasDocstring document i then Some document
               else insertDocstringAtLine document i
                      (generateDocstring language (p_name p) (p_params p))))"
proof (intro conjI)
  show "hasDocstring document i
            \<longleftrightarrow> (\<exists>j. j \<le> i \<and> i \<le> j + 2
                  \<and> (includes_str (document ! j) ''\"\"\"'' \<or> includes_str (document ! j) ''/**''))"
    by (simp only: hasDocstring_window hasMarker_def)
  show b: "loopBody language document i
            = (if hasDocstring document i then Some document
               else insertDocstringAtLine document i
                      (generateDocstring language (p_name p) (p_params p)))"
    using assms by (rule loopBody_match)
  show "loopBody language document i = Some document \<longleftrightarrow> hasDocstring document i"
  proof (cases "hasDocstring document i")
    case True
    with b show ?thesis by simp
  next
    case False
    from loopBody_inserts(2) [OF assms False]
    obtain d where "loopBody language document i = Some d" "length document < length d"
      by blast
    then have "loopBody language document i \<noteq> Some document"
      by auto
    with False show ?thesis by simp
  qed
qed

text \<open>The amended claim C1 on a Python declaration with a docstring on its own line.\<close>

theorem existing_doc_check_window_witness:
  "lineAt [''def f(): \"\"\"doc\"\"\"''] 0 = Some ''def f(): \"\"\"doc\"\"\"''
   \<and> parseFunctionOrClass ''def f(): \"\"\"doc\"\"\"'' ''python''
       = Some \<lparr>p_type = Function, p_name = ''f'', p_params = []\<rparr>
   \<and> hasDocstring [''def f(): \"\"\"doc\"\"\"''] 0
   \<and> loopBody ''python'' [''def f(): \"\"\"doc\"\"\"''] 0 = Some [''def f(): \"\"\"doc\"\"\"'']"
proof -
  let ?line = "''def f(): \"\"\"doc\"\"\"''"
  let ?p = "\<lparr>p_type = Function, p_name = ''f'', p_params = []\<rparr>"
  have l: "lineAt [?line] 0 = Some ?line" by code_simp
  have p: "parseFunctionOrClass ?line ''python'' = Some ?p" by code_simp
  have h: "hasDocstring [?line] 0" by code_simp
  note t = existing_doc_check_window [OF l p]
  have b: "loopBody ''python'' [?line] 0 = Some [?line]"
    by (rule t [THEN conjunct2, THEN conjunct1, THEN iffD2, OF h])
  show ?thesis
    by (intro conjI l p h b)
qed

text \<open>
  Claim C2 says that a second run inserts nothing more. On the JavaScript buffer of
  two lines below, the first run inserts the JSDoc block of six lines; on the second
  run the declaration, now line 6, is matched again, the three lines the check reads
  (the declaration, the closing \<^verbatim>\<open>*/\<close> and the \<^verbatim>\<open>@returns\<close> line) hold no marker, and a
  second copy of the block is inserted.
\<close>

theorem second_run_inserts_again:
  "generateDocstringsForFile ''javascript'' [''function add(a, b) {'', ''}'']
     = Some [''/**'', '' * add description.'', '' * @param {any} a DESCRIPTION'',
             '' * @param {any} b DESCRIPTION'', '' * @returns {any} DESCRIPTION'', '' */'',
             ''function add(a, b) {'', ''}'']
   \<and> generateDocstringsForFile ''javascript''
         [''/**'', '' * add description.'', '' * @param {any} a DESCRIPTION'',
          '' * @param {any} b DESCRIPTION'', '' * @returns {any} DESCRIPTION'', '' */'',
          ''function add(a, b) {'', ''}'']
     = Some [''/**'', '' * add description.'', '' * @param {any} a DESCRIPTION'',
             '' * @param {any} b DESCRIPTION'', '' * @returns {any} DESCRIPTION'', '' */'',
             ''/**'', '' * add description.'', '' * @param {any} a DESCRIPTION'',
             '' * @param {any} b DESCRIPTION'', '' * @returns {any} DESCRIPTION'', '' */'',
             ''function add(a, b) {'', ''}'']"
  by code_simp

text \<open>
  For Python the closing triple quote stands directly above the declaration, so a
  documented declaration is skipped; but the first run reads only as many lines as the
  document had at the start, so a declaration that the inserted lines push beyond that
  count is first reached, and documented, by the second run.
\<close>

lemma second_run_inserts_again_python:
  "generateDocstringsForFile ''python'' [''def f():'', ''    pass'', '''', ''def g():'']
     = Some [''\"\"\"f description.'', '''', '':return: DESCRIPTION'', ''\"\"\"'',
             ''def f():'', ''    pass'', '''', ''def g():'']
   \<and> generateDocstringsForFile ''python''
         [''\"\"\"f description.'', '''', '':return: DESCRIPTION'', ''\"\"\"'',
          ''def f():'', ''    pass'', '''', ''def g():'']
     = Some [''\"\"\"f description.'', '''', '':return: DESCRIPTION'', ''\"\"\"'',
             ''def f():'', ''    pass'', '''',
             ''\"\"\"g description.'', '''', '':return: DESCRIPTION'', ''\"\"\"'',
             ''def g():'']"
  by code_simp

text \<open>
  The same miss within one run: when the document is long enough for the loop to reach
  the declaration at its new line, the JSDoc block is inserted a second time.
\<close>

lemma first_run_inserts_twice:
  "generateDocstringsForFile ''javascript'' [''function f() {'', ''}'', '''', '''', '''']
     = Some [''/**'', '' * f description.'', '' * @returns {any} DESCRIPTION'', '' */'',
             ''/**'', '' * f description.'', '' * @returns {any} DESCRIPTION'', '' */'',
             ''function f() {'', ''}'', '''', '''', '''']"
  by code_simp

text \<open>
  Claim C4 says that for a language outside Python, JavaScript and TypeScript the
  template is empty and the buffer is left unchanged. The template is empty, but the
  loop inserts it all the same: the inserted text is the indentation and a newline,
  and since that block is a single line the declaration is met again at the next line
  number, until the line count read at the start is reached.
\<close>

theorem unsupported_language_inserts_blank_line:
  "generateDocstring ''java'' ''Foo'' [] = []
   \<and> parseFunctionOrClass ''  class Foo {'' ''java''
       = Some \<lparr>p_type = Class, p_name = ''Foo'', p_params = []\<rparr>
   \<and> generateDocstringsForFile ''java'' [''  class Foo {'', ''  }'']
       = Some [''  '', ''  '', ''  class Foo {'', ''  }'']"
  by code_simp

end
